theory Spec2Isabelle
  imports Main
begin

section \<open>The video pipeline of video\_summary.py\<close>

text \<open>
  The class \<open>VideoProcessor\<close> has three step methods, \<open>convert_to_mp4\<close>,
  \<open>transcribe_video\<close> and \<open>summarize_text\<close>, and the orchestrating method
  \<open>process_video\<close>, which runs them in sequence inside \<open>try\<close> and deletes the tracked
  temporary files in \<open>finally\<close>. The media library, the speech-recognition service and
  the completion service are outside the repository: they are fields of a record
  \<open>services\<close>, and every theorem holds for all of them.
\<close>

subsection \<open>Data\<close>

type_synonym path = string

text \<open>
  The class of a Python exception, as far as \<open>except Exception\<close> tells classes apart:
  the builtin \<open>Exception\<close> itself, a named proper subclass of it, or a named class
  that does not derive from it (\<open>KeyboardInterrupt\<close>, \<open>SystemExit\<close>,
  \<open>GeneratorExit\<close> and whatever else derives from \<open>BaseException\<close> only).
\<close>

datatype exc_class = Exception | Exception_subclass string | BaseException_only string

text \<open>A Python exception: its class and \<open>str(e)\<close>.\<close>

datatype py_exc = PyExc (exc_class: exc_class) (exc_str: string)

text \<open>\<open>isinstance(e, Exception)\<close>: what an \<open>except Exception\<close> clause catches.\<close>

definition isinstance_Exception :: "py_exc \<Rightarrow> bool" where
  "isinstance_Exception e =
     (case exc_class e of BaseException_only name \<Rightarrow> False | _ \<Rightarrow> True)"

text \<open>
  What a run does, in order: \<open>st.info\<close> messages, entry into each step method, the
  file made by \<open>NamedTemporaryFile\<close>, each exception that leaves a step method, each
  \<open>os.unlink\<close>. A Python value that may be \<open>None\<close> is a \<open>string option\<close>.
\<close>

datatype event =
    StInfo string
  | Convert path
  | TempFile path
  | Transcribe path
  | Summarize "string option"
  | Raised py_exc
  | Unlink path

record world =
  files :: "path set"
  trace :: "event list"

text \<open>
  The collaborators. \<open>random_names\<close> is the sequence of random name parts that
  \<open>tempfile\<close> tries, in order; \<open>VideoFileClip\<close>, \<open>write_videofile\<close> and
  \<open>video_close\<close> return the exception they raise, if any; \<open>transcribe\<close> returns the
  \<open>text\<close> attribute of the transcript; \<open>chat_completions_create\<close> returns the
  \<open>message.content\<close> of each choice of the response.
\<close>

record services =
  gettempdir :: path
  random_names :: "string list"
  VideoFileClip :: "path \<Rightarrow> py_exc option"
  write_videofile :: "path \<Rightarrow> path \<Rightarrow> py_exc option"
  video_close :: "path \<Rightarrow> py_exc option"
  transcribe :: "path \<Rightarrow> py_exc + string option"
  chat_completions_create ::
    "string \<Rightarrow> (string \<times> string) list \<Rightarrow> int \<Rightarrow> py_exc + string option list"

text \<open>The dictionary \<open>{"transcript": ..., "summary": ...}\<close> that \<open>process_video\<close> returns.\<close>

record processing_result =
  transcript :: "string option"
  summary :: "string option"

subsection \<open>Library functions the source calls\<close>

definition log_event :: "event \<Rightarrow> world \<Rightarrow> world" where
  "log_event e w = w\<lparr>trace := trace w @ [e]\<rparr>"

definition st_info :: "string \<Rightarrow> world \<Rightarrow> world" where
  "st_info msg w = log_event (StInfo msg) w"

text \<open>\<open>str.rfind\<close> for a single character: the last index, or \<open>-1\<close>.\<close>

fun rfind_from :: "char \<Rightarrow> string \<Rightarrow> int \<Rightarrow> int \<Rightarrow> int" where
  "rfind_from c [] i found = found"
| "rfind_from c (x # xs) i found = rfind_from c xs (i + 1) (if x = c then i else found)"

definition rfind :: "string \<Rightarrow> char \<Rightarrow> int" where
  "rfind p c = rfind_from c p 0 (-1)"

text \<open>
  \<open>os.path.splitext\<close> (posixpath): the extension starts at the last dot after the last
  slash, unless the file name consists of leading dots up to there.
\<close>

definition splitext :: "path \<Rightarrow> path \<times> string" where
  "splitext p =
     (let sepIndex = rfind p (CHR ''/'');
          dotIndex = rfind p (CHR ''.'')
      in if dotIndex > sepIndex \<and>
            list_ex (\<lambda>c. c \<noteq> CHR ''.'')
              (take (nat (dotIndex - (sepIndex + 1))) (drop (nat (sepIndex + 1)) p))
         then (take (nat dotIndex) p, drop (nat dotIndex) p)
         else (p, []))"

text \<open>
  \<open>str.lower\<close> on the ASCII letters. No other code point lowercases to \<open>m\<close> or
  \<open>p\<close>, so the comparison with \<open>.mp4\<close> comes out as in Python.
\<close>

definition lower_char :: "char \<Rightarrow> char" where
  "lower_char c =
     (let n = (of_char c :: nat) in if 65 \<le> n \<and> n \<le> 90 then char_of (n + 32) else c)"

definition lower :: "string \<Rightarrow> string" where
  "lower s = map lower_char s"

text \<open>The f-string \<open>{text}\<close>: \<open>None\<close> prints as \<open>None\<close>.\<close>

definition py_format :: "string option \<Rightarrow> string" where
  "py_format v = (case v of None \<Rightarrow> ''None'' | Some s \<Rightarrow> s)"

definition os_path_exists :: "path \<Rightarrow> world \<Rightarrow> bool" where
  "os_path_exists f w = (f \<in> files w)"

text \<open>\<open>os.unlink\<close> removes an existing file and raises for a missing one.\<close>

definition os_unlink :: "path \<Rightarrow> world \<Rightarrow> (py_exc + unit) \<times> world" where
  "os_unlink f w =
     (if f \<in> files w
      then (Inr (), log_event (Unlink f) (w\<lparr>files := files w - {f}\<rparr>))
      else (Inl (PyExc (Exception_subclass ''FileNotFoundError'') f), w))"

text \<open>
  \<open>tempfile.NamedTemporaryFile(delete=False, suffix=...)\<close>: the first candidate name
  that does not exist is created and stays on disk; when every candidate exists the
  call raises \<open>FileExistsError\<close>.
\<close>

definition temp_file_name :: "services \<Rightarrow> string \<Rightarrow> string \<Rightarrow> path" where
  "temp_file_name svc suffix r = gettempdir svc @ ''/tmp'' @ r @ suffix"

definition NamedTemporaryFile :: "services \<Rightarrow> string \<Rightarrow> world \<Rightarrow> (py_exc + path) \<times> world" where
  "NamedTemporaryFile svc suffix w =
     (case filter (\<lambda>n. n \<notin> files w) (map (temp_file_name svc suffix) (random_names svc)) of
        [] \<Rightarrow> (Inl (PyExc (Exception_subclass ''FileExistsError'') ''No usable temporary file name found''), w)
      | name # _ \<Rightarrow> (Inr name, log_event (TempFile name) (w\<lparr>files := insert name (files w)\<rparr>)))"

subsection \<open>The step methods\<close>

text \<open>
  The handler of every step, \<open>except Exception as e: raise Exception(f"...{str(e)}")\<close>,
  with the message prefix of the step. An exception that derives from \<open>Exception\<close> is
  caught and replaced by a new \<open>Exception\<close>; any other is not caught and leaves the
  step as it is. \<open>reraised\<close> is the exception that leaves the step.
\<close>

definition reraised :: "string \<Rightarrow> py_exc \<Rightarrow> py_exc" where
  "reraised prefix e =
     (if isinstance_Exception e then PyExc Exception (prefix @ exc_str e) else e)"

definition except_Exception :: "string \<Rightarrow> py_exc \<Rightarrow> world \<Rightarrow> (py_exc + 'a) \<times> world" where
  "except_Exception prefix e w =
     (Inl (reraised prefix e), log_event (Raised (reraised prefix e)) w)"

text \<open>
  \<open>convert_to_mp4\<close>. The output file exists from \<open>NamedTemporaryFile\<close> on, and
  \<open>write_videofile\<close> writes to that path; the scratch audio file of the media library
  lives inside the library call and is not part of \<open>files\<close>.
\<close>

definition convert_to_mp4 :: "services \<Rightarrow> path \<Rightarrow> world \<Rightarrow> (py_exc + path) \<times> world" where
  "convert_to_mp4 svc input_path w =
     (case NamedTemporaryFile svc ''.mp4'' (log_event (Convert input_path) w) of
        (Inl e, w1) \<Rightarrow> except_Exception ''Error converting video: '' e w1
      | (Inr temp_mp4, w1) \<Rightarrow>
          (case VideoFileClip svc input_path of
             Some e \<Rightarrow> except_Exception ''Error converting video: '' e w1
           | None \<Rightarrow>
               (let w2 = w1\<lparr>files := insert temp_mp4 (files w1)\<rparr> in
                case write_videofile svc input_path temp_mp4 of
                  Some e \<Rightarrow> except_Exception ''Error converting video: '' e w2
                | None \<Rightarrow>
                    (case video_close svc input_path of
                       Some e \<Rightarrow> except_Exception ''Error converting video: '' e w2
                     | None \<Rightarrow> (Inr temp_mp4, w2)))))"

definition transcribe_video :: "services \<Rightarrow> path \<Rightarrow> world \<Rightarrow> (py_exc + string option) \<times> world" where
  "transcribe_video svc video_path w =
     (let w1 = log_event (Transcribe video_path) w in
      case transcribe svc video_path of
        Inl e \<Rightarrow> except_Exception ''Error transcribing video: '' e w1
      | Inr text \<Rightarrow> (Inr text, w1))"

text \<open>
  The call \<open>openai.chat.completions.create(model=..., messages=[...], max_tokens=...)\<close>
  of \<open>summarize_text\<close>, with the messages it builds from \<open>text\<close>.
\<close>

definition create_completion :: "services \<Rightarrow> string option \<Rightarrow> int \<Rightarrow> py_exc + string option list" where
  "create_completion svc text max_tokens =
     chat_completions_create svc ''gpt-3.5-turbo''
       [(''system'', ''You are a helpful assistant that creates concise summaries.''),
        (''user'', ''Please summarize the following text:'' @ [CHR 0x0A, CHR 0x0A] @ py_format text)]
       max_tokens"

definition summarize_text ::
  "services \<Rightarrow> string option \<Rightarrow> int \<Rightarrow> world \<Rightarrow> (py_exc + string option) \<times> world" where
  "summarize_text svc text max_tokens w =
     (let w1 = log_event (Summarize text) w in
      case create_completion svc text max_tokens of
        Inl e \<Rightarrow> except_Exception ''Error summarizing text: '' e w1
      | Inr choices \<Rightarrow>
          (case choices of
             [] \<Rightarrow>
               except_Exception ''Error summarizing text: ''
                 (PyExc (Exception_subclass ''IndexError'') ''list index out of range'') w1
           | content # _ \<Rightarrow> (Inr content, w1)))"

subsection \<open>The orchestrator\<close>

text \<open>The body of \<open>try\<close>: its outcome, the list \<open>temp_files\<close> as it stands, the world.\<close>

definition process_video_try ::
  "services \<Rightarrow> path \<Rightarrow> world \<Rightarrow> (py_exc + processing_result) \<times> path list \<times> world" where
  "process_video_try svc video_path w =
     (let temp_files = [];
          file_extension = lower (snd (splitext video_path))
      in case (if file_extension \<noteq> ''.mp4''
               then (case convert_to_mp4 svc video_path (st_info ''Converting video to MP4 format...'' w) of
                       (Inl e, w1) \<Rightarrow> (Inl e, temp_files, w1)
                     | (Inr mp4_path, w1) \<Rightarrow> (Inr mp4_path, temp_files @ [mp4_path], w1))
               else (Inr video_path, temp_files, w)) of
           (Inl e, temp_files, w1) \<Rightarrow> (Inl e, temp_files, w1)
         | (Inr mp4_path, temp_files, w1) \<Rightarrow>
             (case transcribe_video svc mp4_path (st_info ''Transcribing video...'' w1) of
                (Inl e, w2) \<Rightarrow> (Inl e, temp_files, w2)
              | (Inr transcript_text, w2) \<Rightarrow>
                  (case summarize_text svc transcript_text 150 (st_info ''Generating summary...'' w2) of
                     (Inl e, w3) \<Rightarrow> (Inl e, temp_files, w3)
                   | (Inr summary_text, w3) \<Rightarrow>
                       (Inr \<lparr>transcript = transcript_text, summary = summary_text\<rparr>, temp_files, w3))))"

text \<open>The loop of \<open>finally\<close>; an exception of \<open>os.unlink\<close> ends it.\<close>

fun cleanup :: "path list \<Rightarrow> world \<Rightarrow> py_exc option \<times> world" where
  "cleanup [] w = (None, w)"
| "cleanup (temp_file # rest) w =
     (if os_path_exists temp_file w
      then (case os_unlink temp_file w of
              (Inl e, w1) \<Rightarrow> (Some e, w1)
            | (Inr u, w1) \<Rightarrow> cleanup rest w1)
      else cleanup rest w)"

text \<open>
  \<open>process_video\<close>: \<open>finally\<close> runs on every exit of \<open>try\<close>; an exception raised in
  \<open>finally\<close> replaces the outcome of \<open>try\<close>.
\<close>

definition process_video ::
  "services \<Rightarrow> path \<Rightarrow> world \<Rightarrow> (py_exc + processing_result) \<times> world" where
  "process_video svc video_path w =
     (case process_video_try svc video_path w of
        (r, temp_files, w1) \<Rightarrow>
          (case cleanup temp_files w1 of
             (Some e, w2) \<Rightarrow> (Inl e, w2)
           | (None, w2) \<Rightarrow> (r, w2)))"

text \<open>The events a run adds to the trace.\<close>

definition events_of_run :: "world \<Rightarrow> world \<Rightarrow> event list" where
  "events_of_run w w' = drop (length (trace w)) (trace w')"

subsection \<open>Stub collaborators for concrete runs\<close>

text \<open>
  Every collaborator succeeds: the transcriber returns \<open>hello world\<close> and the
  summarizer returns \<open>greeting\<close>.
\<close>

definition stub_services :: services where
  "stub_services =
     \<lparr>gettempdir = ''/tmp'',
      random_names = [''abc123''],
      VideoFileClip = (\<lambda>p. None),
      write_videofile = (\<lambda>p out. None),
      video_close = (\<lambda>p. None),
      transcribe = (\<lambda>p. Inr (Some ''hello world'')),
      chat_completions_create = (\<lambda>m msgs n. Inr [Some ''greeting''])\<rparr>"

text \<open>The media library cannot open the input.\<close>

definition broken_clip_services :: services where
  "broken_clip_services =
     stub_services\<lparr>VideoFileClip := (\<lambda>p. Some (PyExc (Exception_subclass ''OSError'') ''file could not be read''))\<rparr>"

text \<open>The media library opens the input and fails while encoding.\<close>

definition broken_writer_services :: services where
  "broken_writer_services =
     stub_services\<lparr>write_videofile := (\<lambda>p out. Some (PyExc (Exception_subclass ''OSError'') ''broken pipe''))\<rparr>"

text \<open>The speech-recognition call raises.\<close>

definition failed_transcriber_services :: services where
  "failed_transcriber_services =
     stub_services\<lparr>transcribe := (\<lambda>p. Inl (PyExc (Exception_subclass ''TranscriptError'') ''quota exceeded''))\<rparr>"

text \<open>The completion call raises.\<close>

definition failed_summarizer_services :: services where
  "failed_summarizer_services =
     stub_services\<lparr>chat_completions_create :=
       (\<lambda>m msgs n. Inl (PyExc (Exception_subclass ''APIError'') ''rate limit''))\<rparr>"

text \<open>The speech-recognition call returns an empty text.\<close>

definition silent_services :: services where
  "silent_services = stub_services\<lparr>transcribe := (\<lambda>p. Inr (Some ''''))\<rparr>"

text \<open>The speech-recognition call returns a transcript without text.\<close>

definition textless_services :: services where
  "textless_services = stub_services\<lparr>transcribe := (\<lambda>p. Inr None)\<rparr>"

text \<open>The speech-recognition call is interrupted from the keyboard.\<close>

definition interrupted_transcriber_services :: services where
  "interrupted_transcriber_services =
     stub_services\<lparr>transcribe := (\<lambda>p. Inl (PyExc (BaseException_only ''KeyboardInterrupt'') ''stop''))\<rparr>"


text \<open>The media library fails when closing the clip.\<close>

definition broken_close_services :: services where
  "broken_close_services =
     stub_services\<lparr>video_close := (\<lambda>p. Some (PyExc (Exception_subclass ''OSError'') ''clip already closed''))\<rparr>"

text \<open>No temporary file name is free: \<open>tempfile\<close> has no candidate to offer.\<close>

definition no_tempname_services :: services where
  "no_tempname_services = stub_services\<lparr>random_names := []\<rparr>"

text \<open>The completion call returns a response without choices.\<close>

definition no_choice_services :: services where
  "no_choice_services = stub_services\<lparr>chat_completions_create := (\<lambda>m msgs n. Inr [])\<rparr>"

definition disk :: "path list \<Rightarrow> world" where
  "disk fs = \<lparr>files = set fs, trace = []\<rparr>"

subsection \<open>The shape of a run\<close>

text \<open>
  What the transcription and summarization steps do on the path \<open>q\<close>: the outcome and
  the events, in the three ways the two steps can end. In \<open>summarize_failed\<close> the
  exception \<open>e1\<close> is the one of the completion call, or the \<open>IndexError\<close> of
  \<open>choices[0]\<close> on a response without choices.
\<close>

inductive steps_run :: "services \<Rightarrow> path \<Rightarrow> py_exc + processing_result \<Rightarrow> event list \<Rightarrow> bool"
  for svc :: services and q :: path where
  transcribe_failed:
    "transcribe svc q = Inl e0 \<Longrightarrow>
     x = reraised ''Error transcribing video: '' e0 \<Longrightarrow>
     steps_run svc q (Inl x) [StInfo ''Transcribing video...'', Transcribe q, Raised x]"
| summarize_failed:
    "transcribe svc q = Inr t \<Longrightarrow>
     create_completion svc t 150 = Inl e1 \<or>
     create_completion svc t 150 = Inr [] \<and>
       e1 = PyExc (Exception_subclass ''IndexError'') ''list index out of range'' \<Longrightarrow>
     x = reraised ''Error summarizing text: '' e1 \<Longrightarrow>
     steps_run svc q (Inl x)
       [StInfo ''Transcribing video...'', Transcribe q, StInfo ''Generating summary...'',
        Summarize t, Raised x]"
| summarized:
    "transcribe svc q = Inr t \<Longrightarrow>
     create_completion svc t 150 = Inr (s # others) \<Longrightarrow>
     steps_run svc q (Inr \<lparr>transcript = t, summary = s\<rparr>)
       [StInfo ''Transcribing video...'', Transcribe q, StInfo ''Generating summary...'',
        Summarize t]"

subsection \<open>Temporary files and cleanup\<close>

lemma NamedTemporaryFile_cases:
  assumes "NamedTemporaryFile svc sfx w = (r, w1)"
  obtains (exhausted) e where "r = Inl e" "w1 = w"
  | (created) name where "r = Inr name" "name \<notin> files w"
      "w1 = w\<lparr>files := insert name (files w), trace := trace w @ [TempFile name]\<rparr>"
proof (cases "filter (\<lambda>n. n \<notin> files w) (map (temp_file_name svc sfx) (random_names svc))")
  case Nil
  with assms exhausted show ?thesis by (auto simp: NamedTemporaryFile_def)
next
  case (Cons name rest)
  then have "name \<in> set (filter (\<lambda>n. n \<notin> files w) (map (temp_file_name svc sfx) (random_names svc)))"
    by simp
  then have "name \<notin> files w" by simp
  with assms Cons created show ?thesis
    by (auto simp: NamedTemporaryFile_def log_event_def)
qed

lemma cleanup_spec:
  "fst (cleanup tfs w) = None \<and> files (snd (cleanup tfs w)) = files w - set tfs \<and>
   (\<exists>us. trace (snd (cleanup tfs w)) = trace w @ map Unlink us \<and> distinct us \<and>
         set us = set tfs \<inter> files w)"
proof (induction tfs arbitrary: w)
  case Nil
  show ?case by simp
next
  case (Cons f rest)
  show ?case
  proof (cases "f \<in> files w")
    case False
    with Cons [of w] show ?thesis by (auto simp: os_path_exists_def)
  next
    case True
    let ?w1 = "log_event (Unlink f) (w\<lparr>files := files w - {f}\<rparr>)"
    from True have c: "cleanup (f # rest) w = cleanup rest ?w1"
      by (simp add: os_path_exists_def os_unlink_def)
    from Cons [of ?w1] obtain us where
      us: "fst (cleanup rest ?w1) = None" "files (snd (cleanup rest ?w1)) = files ?w1 - set rest"
        "trace (snd (cleanup rest ?w1)) = trace ?w1 @ map Unlink us" "distinct us"
        "set us = set rest \<inter> files ?w1"
      by blast
    have "trace (snd (cleanup (f # rest) w)) = trace w @ map Unlink (f # us)"
      using c us(3) by (simp add: log_event_def)
    moreover have "distinct (f # us)" using us(4,5) by (auto simp: log_event_def)
    moreover have "set (f # us) = set (f # rest) \<inter> files w"
      using us(5) True by (auto simp: log_event_def)
    moreover have "files (snd (cleanup (f # rest) w)) = files w - set (f # rest)"
      using c us(2) by (auto simp: log_event_def)
    ultimately show ?thesis using c us(1) by metis
  qed
qed

lemma cleanup_single:
  "f \<in> files w \<Longrightarrow>
   cleanup [f] w = (None, w\<lparr>files := files w - {f}, trace := trace w @ [Unlink f]\<rparr>)"
  by (simp add: os_path_exists_def os_unlink_def log_event_def)

subsection \<open>The steps\<close>

lemmas step_defs = convert_to_mp4_def transcribe_video_def summarize_text_def
  except_Exception_def log_event_def st_info_def

lemma convert_cases:
  assumes "convert_to_mp4 svc p w = (r, w1)"
  obtains (no_name) e0 where "r = Inl (reraised ''Error converting video: '' e0)"
      "w1 = w\<lparr>trace := trace w @ [Convert p, Raised (reraised ''Error converting video: '' e0)]\<rparr>"
  | (failed) e0 name where "r = Inl (reraised ''Error converting video: '' e0)"
      "name \<notin> files w"
      "w1 = w\<lparr>files := insert name (files w), trace := trace w @ [Convert p, TempFile name,
          Raised (reraised ''Error converting video: '' e0)]\<rparr>"
  | (converted) name where "r = Inr name" "name \<notin> files w"
      "w1 = w\<lparr>files := insert name (files w), trace := trace w @ [Convert p, TempFile name]\<rparr>"
proof -
  obtain r0 w0 where n: "NamedTemporaryFile svc ''.mp4'' (log_event (Convert p) w) = (r0, w0)"
    by (cases "NamedTemporaryFile svc ''.mp4'' (log_event (Convert p) w)")
  from n show ?thesis
  proof (cases rule: NamedTemporaryFile_cases)
    case (exhausted e)
    with assms n no_name [of e] show ?thesis
      by (simp add: step_defs)
  next
    case (created name)
    with assms n failed [of _ name] converted [of name] show ?thesis
      by (auto simp: step_defs Let_def split: option.splits)
  qed
qed

lemma steps_cases:
  assumes "(case transcribe_video svc q (st_info ''Transcribing video...'' w1) of
                (Inl e, w2) \<Rightarrow> (Inl e, tfs, w2)
              | (Inr transcript_text, w2) \<Rightarrow>
                  (case summarize_text svc transcript_text 150 (st_info ''Generating summary...'' w2) of
                     (Inl e, w3) \<Rightarrow> (Inl e, tfs, w3)
                   | (Inr summary_text, w3) \<Rightarrow>
                       (Inr \<lparr>transcript = transcript_text, summary = summary_text\<rparr>, tfs, w3))) = (r, tfs', w')"
  shows "\<exists>evs. steps_run svc q r evs \<and> tfs' = tfs \<and> w' = w1\<lparr>trace := trace w1 @ evs\<rparr>"
proof (cases "transcribe svc q")
  case (Inl e0)
  let ?x = "reraised ''Error transcribing video: '' e0"
  from assms Inl have "r = Inl ?x" "tfs' = tfs"
    "w' = w1\<lparr>trace := trace w1 @ [StInfo ''Transcribing video...'', Transcribe q, Raised ?x]\<rparr>"
    by (auto simp: step_defs)
  with transcribe_failed [OF Inl refl] show ?thesis by blast
next
  case (Inr t)
  let ?evs = "[StInfo ''Transcribing video...'', Transcribe q, StInfo ''Generating summary...'',
    Summarize t]"
  show ?thesis
  proof (cases "create_completion svc t 150")
    case (Inl e)
    let ?x = "reraised ''Error summarizing text: '' e"
    from Inl have no: "create_completion svc t 150 = Inl e \<or>
        create_completion svc t 150 = Inr [] \<and>
          e = PyExc (Exception_subclass ''IndexError'') ''list index out of range''"
      by simp
    from assms Inr Inl have "r = Inl ?x" "tfs' = tfs"
      "w' = w1\<lparr>trace := trace w1 @ ?evs @ [Raised ?x]\<rparr>"
      by (auto simp: step_defs)
    with summarize_failed [OF Inr no refl] show ?thesis by auto
  next
    case choices: (Inr choices)
    show ?thesis
    proof (cases choices)
      case Nil
      let ?e = "PyExc (Exception_subclass ''IndexError'') ''list index out of range''"
      let ?x = "reraised ''Error summarizing text: '' ?e"
      from choices Nil have no: "create_completion svc t 150 = Inl ?e \<or>
          create_completion svc t 150 = Inr [] \<and>
            ?e = PyExc (Exception_subclass ''IndexError'') ''list index out of range''"
        by simp
      from assms Inr choices Nil have "r = Inl ?x" "tfs' = tfs"
        "w' = w1\<lparr>trace := trace w1 @ ?evs @ [Raised ?x]\<rparr>"
        by (auto simp: step_defs)
      with summarize_failed [OF Inr no refl] show ?thesis by auto
    next
      case (Cons s others)
      with choices have ok: "create_completion svc t 150 = Inr (s # others)" by simp
      from assms Inr choices Cons have "r = Inr \<lparr>transcript = t, summary = s\<rparr>" "tfs' = tfs"
        "w' = w1\<lparr>trace := trace w1 @ ?evs\<rparr>"
        by (auto simp: step_defs)
      with summarized [OF Inr ok] show ?thesis by blast
    qed
  qed
qed

subsection \<open>The runs of \<open>process_video\<close>\<close>

lemma events_of_run_trace [simp]:
  "events_of_run w (w\<lparr>trace := trace w @ evs\<rparr>) = evs"
  "events_of_run w (w\<lparr>files := F, trace := trace w @ evs\<rparr>) = evs"
  by (simp_all add: events_of_run_def)

lemma process_video_cases:
  assumes "process_video svc p w = (r, w')"
  obtains (mp4) evs where "lower (snd (splitext p)) = ''.mp4''" "steps_run svc p r evs"
      "w' = w\<lparr>trace := trace w @ evs\<rparr>"
  | (no_name) e0 where "lower (snd (splitext p)) \<noteq> ''.mp4''"
      "r = Inl (reraised ''Error converting video: '' e0)"
      "w' = w\<lparr>trace := trace w @ [StInfo ''Converting video to MP4 format...'', Convert p,
          Raised (reraised ''Error converting video: '' e0)]\<rparr>"
  | (leaked) e0 name where "lower (snd (splitext p)) \<noteq> ''.mp4''" "name \<notin> files w"
      "r = Inl (reraised ''Error converting video: '' e0)"
      "w' = w\<lparr>files := insert name (files w),
          trace := trace w @ [StInfo ''Converting video to MP4 format...'', Convert p, TempFile name,
          Raised (reraised ''Error converting video: '' e0)]\<rparr>"
  | (converted) name evs where "lower (snd (splitext p)) \<noteq> ''.mp4''" "name \<notin> files w"
      "steps_run svc name r evs"
      "w' = w\<lparr>trace := trace w @ [StInfo ''Converting video to MP4 format...'', Convert p,
          TempFile name] @ evs @ [Unlink name]\<rparr>"
proof (cases "lower (snd (splitext p)) = ''.mp4''")
  case True
  obtain r0 tfs w0 where t: "process_video_try svc p w = (r0, tfs, w0)"
    by (cases "process_video_try svc p w")
  with True
  obtain evs where "steps_run svc p r0 evs" "tfs = []" "w0 = w\<lparr>trace := trace w @ evs\<rparr>"
    by (auto simp: process_video_try_def dest!: steps_cases)
  with assms t True mp4 show ?thesis
    by (simp add: process_video_def)
next
  case False
  let ?w = "st_info ''Converting video to MP4 format...'' w"
  obtain rc wc where c: "convert_to_mp4 svc p ?w = (rc, wc)"
    by (cases "convert_to_mp4 svc p ?w")
  from c show ?thesis
  proof (cases rule: convert_cases)
    case (no_name e0)
    with assms c False have "r = Inl (reraised ''Error converting video: '' e0)" "w' = wc"
      by (simp_all add: process_video_def process_video_try_def)
    with no_name False show ?thesis
      using that(2) [of e0] by (simp add: st_info_def log_event_def)
  next
    case (failed e0 name)
    with assms c False have "r = Inl (reraised ''Error converting video: '' e0)" "w' = wc"
      by (simp_all add: process_video_def process_video_try_def)
    with failed False show ?thesis
      using leaked [of name e0] by (simp add: st_info_def log_event_def)
  next
    case (converted name)
    obtain r0 tfs w0 where t: "process_video_try svc p w = (r0, tfs, w0)"
      by (cases "process_video_try svc p w")
    with False c converted(1)
    obtain evs where s: "steps_run svc name r0 evs" "tfs = [name]" "w0 = wc\<lparr>trace := trace wc @ evs\<rparr>"
      by (auto simp: process_video_try_def dest!: steps_cases)
    from converted s have "name \<in> files w0" by simp
    from cleanup_single [OF this] assms t s have "r = r0"
      "w' = w0\<lparr>files := files w0 - {name}, trace := trace w0 @ [Unlink name]\<rparr>"
      by (simp_all add: process_video_def)
    with s converted False show ?thesis
      using that(4) [of name evs] by (simp add: st_info_def log_event_def)
  qed
qed

lemma steps_run_events:
  assumes "steps_run svc q r evs"
  shows "(\<forall>p. Transcribe p \<in> set evs \<longleftrightarrow> p = q)"
    and "\<forall>f. Unlink f \<notin> set evs" and "\<forall>f. TempFile f \<notin> set evs" and "\<forall>p. Convert p \<notin> set evs"
  using assms by (cases rule: steps_run.cases; auto)+





text \<open>
  Temporary files across a run: either the files on disk are those of before, or the
  conversion failed after \<open>NamedTemporaryFile\<close> had made its file and that one file
  is left. When the conversion succeeds its file is the only one created and the only
  one unlinked.
\<close>

lemma run_keeps_files_or_leaks_one:
  "files (snd (process_video svc video_path w)) = files w \<or>
   (\<exists>name e0. name \<notin> files w \<and>
      files (snd (process_video svc video_path w)) = insert name (files w) \<and>
      TempFile name \<in> set (events_of_run w (snd (process_video svc video_path w))) \<and>
      fst (process_video svc video_path w) =
        Inl (reraised ''Error converting video: '' e0))"
proof -
  obtain r w' where run: "process_video svc video_path w = (r, w')"
    by (cases "process_video svc video_path w")
  from run show ?thesis
  proof (cases rule: process_video_cases)
    case (leaked e0 name)
    with run show ?thesis by auto
  qed (use run in simp_all)
qed

lemma converted_run_deletes_temporary_file:
  assumes "lower (snd (splitext video_path)) \<noteq> ''.mp4''"
    and "fst (convert_to_mp4 svc video_path (st_info ''Converting video to MP4 format...'' w)) = Inr name"
  shows "files (snd (process_video svc video_path w)) = files w \<and>
     (\<forall>f. TempFile f \<in> set (events_of_run w (snd (process_video svc video_path w))) \<longleftrightarrow> f = name) \<and>
     (\<forall>f. Unlink f \<in> set (events_of_run w (snd (process_video svc video_path w))) \<longleftrightarrow> f = name)"
proof -
  let ?w = "st_info ''Converting video to MP4 format...'' w"
  obtain rc wc where c: "convert_to_mp4 svc video_path ?w = (rc, wc)"
    by (cases "convert_to_mp4 svc video_path ?w")
  with assms(2) have rc: "rc = Inr name" by simp
  obtain r w' where run: "process_video svc video_path w = (r, w')"
    by (cases "process_video svc video_path w")
  obtain r0 tfs w0 where t: "process_video_try svc video_path w = (r0, tfs, w0)"
    by (cases "process_video_try svc video_path w")
  with assms(1) c rc
  obtain evs where s: "steps_run svc name r0 evs" "tfs = [name]" "w0 = wc\<lparr>trace := trace wc @ evs\<rparr>"
    by (auto simp: process_video_try_def dest!: steps_cases)
  from c rc have wc: "name \<notin> files w"
    "wc = w\<lparr>files := insert name (files w),
       trace := trace w @ [StInfo ''Converting video to MP4 format...'', Convert video_path, TempFile name]\<rparr>"
    by (cases rule: convert_cases; simp add: st_info_def log_event_def)+
  from wc s have "name \<in> files w0" by simp
  from cleanup_single [OF this] run t s
  have "w' = w0\<lparr>files := files w0 - {name}, trace := trace w0 @ [Unlink name]\<rparr>"
    by (simp add: process_video_def)
  with s(3) wc have "files w' = files w"
    "events_of_run w w' = [StInfo ''Converting video to MP4 format...'', Convert video_path, TempFile name]
        @ evs @ [Unlink name]"
    by (simp_all add: events_of_run_def)
  with steps_run_events(2,3) [OF s(1)] run show ?thesis by auto
qed


lemma NamedTemporaryFile_logged:
  "fst (NamedTemporaryFile svc sfx (log_event ev w)) = fst (NamedTemporaryFile svc sfx w)"
  by (simp add: NamedTemporaryFile_def log_event_def split: list.splits)

section \<open>The claims\<close>

text \<open>
  C10. The cleanup loop calls \<open>os.unlink\<close> only on a tracked file that exists when its
  turn comes: for every list of tracked files and every state of the disk the loop
  raises nothing, the files left are those of before minus the tracked ones, and the
  files unlinked are exactly the tracked files that exist, each once. This holds on
  every exit path of \<open>process_video\<close>: its outcome is the outcome of the \<open>try\<close> body
  and its final state is the one the loop leaves.
\<close>

theorem cleanup_unlinks_exactly_existing_tracked_files:
  "fst (cleanup temp_files w) = None \<and>
   files (snd (cleanup temp_files w)) = files w - set temp_files \<and>
   (\<exists>us. events_of_run w (snd (cleanup temp_files w)) = map Unlink us \<and> distinct us \<and>
         set us = set temp_files \<inter> files w) \<and>
   process_video svc video_path w0 =
     (fst (process_video_try svc video_path w0),
      snd (cleanup (fst (snd (process_video_try svc video_path w0)))
            (snd (snd (process_video_try svc video_path w0)))))"
proof -
  from cleanup_spec [of temp_files w] obtain us where
    us: "trace (snd (cleanup temp_files w)) = trace w @ map Unlink us" "distinct us"
      "set us = set temp_files \<inter> files w"
    by blast
  from us(1) have "events_of_run w (snd (cleanup temp_files w)) = map Unlink us"
    by (simp add: events_of_run_def)
  with us(2,3) have ev: "\<exists>us. events_of_run w (snd (cleanup temp_files w)) = map Unlink us \<and>
      distinct us \<and> set us = set temp_files \<inter> files w"
    by blast
  obtain r tfs w1 where t: "process_video_try svc video_path w0 = (r, tfs, w1)"
    by (cases "process_video_try svc video_path w0")
  obtain c w2 where c: "cleanup tfs w1 = (c, w2)"
    by (cases "cleanup tfs w1")
  with cleanup_spec [of tfs w1] have "c = None" by simp
  with t c have "process_video svc video_path w0 = (r, w2)"
    by (simp add: process_video_def)
  with t c ev cleanup_spec [of temp_files w] show ?thesis by simp
qed

theorem cleanup_unlinks_exactly_existing_tracked_files_witness:
  "fst (cleanup [''/tmp/tmpabc123.mp4'', ''/tmp/gone.mp4''] (disk [''/tmp/tmpabc123.mp4'', ''clip.avi''])) = None \<and>
   files (snd (cleanup [''/tmp/tmpabc123.mp4'', ''/tmp/gone.mp4''] (disk [''/tmp/tmpabc123.mp4'', ''clip.avi''])))
     = {''clip.avi''}"
proof -
  note run = cleanup_unlinks_exactly_existing_tracked_files
    [of "[''/tmp/tmpabc123.mp4'', ''/tmp/gone.mp4'']" "disk [''/tmp/tmpabc123.mp4'', ''clip.avi'']"
        stub_services "''clip.avi''" "disk [''clip.avi'']"]
  have d: "files (disk [''/tmp/tmpabc123.mp4'', ''clip.avi'']) - set [''/tmp/tmpabc123.mp4'', ''/tmp/gone.mp4'']
      = {''clip.avi''}"
    by code_simp
  from run [THEN conjunct2, THEN conjunct1] d
  have "files (snd (cleanup [''/tmp/tmpabc123.mp4'', ''/tmp/gone.mp4''] (disk [''/tmp/tmpabc123.mp4'', ''clip.avi''])))
     = {''clip.avi''}"
    by (rule trans)
  with run [THEN conjunct1] show ?thesis by (rule conjI)
qed

text \<open>
  C2. For every input path whose extension is \<open>.mp4\<close>: if the transcriber returns the
  text \<open>t\<close> and the summarizer returns the text \<open>s\<close>, then \<open>process_video\<close> returns
  the record with transcript \<open>t\<close> and summary \<open>s\<close>, the files on disk afterwards are
  those of before, and no temporary file is created during the run.
\<close>

theorem mp4_input_returns_transcript_and_summary:
  assumes ext: "lower (snd (splitext video_path)) = ''.mp4''"
    and t: "transcribe svc video_path = Inr (Some t)"
    and s: "create_completion svc (Some t) 150 = Inr (Some s # others)"
  shows "fst (process_video svc video_path w) = Inr \<lparr>transcript = Some t, summary = Some s\<rparr> \<and>
         files (snd (process_video svc video_path w)) = files w \<and>
         (\<forall>f. TempFile f \<notin> set (events_of_run w (snd (process_video svc video_path w))))"
proof -
  obtain r w' where run: "process_video svc video_path w = (r, w')"
    by (cases "process_video svc video_path w")
  from run show ?thesis
  proof (cases rule: process_video_cases)
    case (mp4 evs)
    from mp4(2) t s have "r = Inr \<lparr>transcript = Some t, summary = Some s\<rparr> \<and> (\<forall>f. TempFile f \<notin> set evs)"
      by (cases rule: steps_run.cases) auto
    with run mp4(3) show ?thesis by simp
  qed (use ext in simp_all)
qed

theorem mp4_input_returns_transcript_and_summary_witness:
  "lower (snd (splitext ''sample.mp4'')) = ''.mp4'' \<and>
   fst (process_video stub_services ''sample.mp4'' (disk [''sample.mp4''])) =
     Inr \<lparr>transcript = Some ''hello world'', summary = Some ''greeting''\<rparr> \<and>
   files (snd (process_video stub_services ''sample.mp4'' (disk [''sample.mp4'']))) =
     files (disk [''sample.mp4''])"
proof -
  have ext: "lower (snd (splitext ''sample.mp4'')) = ''.mp4''"
    by code_simp
  have t: "transcribe stub_services ''sample.mp4'' = Inr (Some ''hello world'')"
    by (simp add: stub_services_def)
  have s: "create_completion stub_services (Some ''hello world'') 150 = Inr (Some ''greeting'' # [])"
    by (simp add: stub_services_def create_completion_def)
  note run = mp4_input_returns_transcript_and_summary [OF ext t s, of "disk [''sample.mp4'']"]
  from ext run [THEN conjunct1] run [THEN conjunct2, THEN conjunct1] show ?thesis
    by (intro conjI)
qed

text \<open>
  C3. For every input path whose extension, lowercased, is \<open>.mp4\<close>:
  \<open>convert_to_mp4\<close> is not invoked during the run, and the transcriber is invoked on
  the original input path and on no other path.
\<close>

theorem mp4_input_goes_unconverted_to_transcriber:
  assumes ext: "lower (snd (splitext video_path)) = ''.mp4''"
  shows "(\<forall>q. Convert q \<notin> set (events_of_run w (snd (process_video svc video_path w)))) \<and>
         (\<forall>q. Transcribe q \<in> set (events_of_run w (snd (process_video svc video_path w)))
              \<longleftrightarrow> q = video_path)"
proof -
  obtain r w' where run: "process_video svc video_path w = (r, w')"
    by (cases "process_video svc video_path w")
  from run show ?thesis
  proof (cases rule: process_video_cases)
    case (mp4 evs)
    from mp4(2) have "(\<forall>q. Convert q \<notin> set evs) \<and> (\<forall>q. Transcribe q \<in> set evs \<longleftrightarrow> q = video_path)"
      by (cases rule: steps_run.cases) auto
    with run mp4(3) show ?thesis by simp
  qed (use ext in simp_all)
qed

theorem mp4_input_goes_unconverted_to_transcriber_witness:
  "lower (snd (splitext ''CLIP.MP4'')) = ''.mp4'' \<and>
   Convert ''CLIP.MP4'' \<notin> set (events_of_run (disk [''CLIP.MP4''])
      (snd (process_video stub_services ''CLIP.MP4'' (disk [''CLIP.MP4''])))) \<and>
   Transcribe ''CLIP.MP4'' \<in> set (events_of_run (disk [''CLIP.MP4''])
      (snd (process_video stub_services ''CLIP.MP4'' (disk [''CLIP.MP4'']))))"
proof -
  have ext: "lower (snd (splitext ''CLIP.MP4'')) = ''.mp4''"
    by code_simp
  note run = mp4_input_goes_unconverted_to_transcriber [OF ext, of "disk [''CLIP.MP4'']" stub_services]
  from run have a: "Convert ''CLIP.MP4'' \<notin> set (events_of_run (disk [''CLIP.MP4''])
      (snd (process_video stub_services ''CLIP.MP4'' (disk [''CLIP.MP4'']))))"
    by blast
  from run have b: "Transcribe ''CLIP.MP4'' \<in> set (events_of_run (disk [''CLIP.MP4''])
      (snd (process_video stub_services ''CLIP.MP4'' (disk [''CLIP.MP4'']))))"
    by blast
  from ext a b show ?thesis by (intro conjI)
qed

text \<open>
  C5. The claim: in every run in which the transcriber step fails, the summarizer is
  never invoked and the error that \<open>process_video\<close> propagates names the transcription
  stage in its message. In the run below the speech-recognition call raises
  \<open>KeyboardInterrupt('stop')\<close>, which \<open>except Exception\<close> does not catch: the run
  ends with that exception, whose message names no stage.
\<close>

theorem interrupted_transcription_ends_run_with_KeyboardInterrupt:
  "Transcribe ''sample.mp4'' \<in> set (events_of_run (disk [''sample.mp4''])
      (snd (process_video interrupted_transcriber_services ''sample.mp4'' (disk [''sample.mp4''])))) \<and>
   transcribe interrupted_transcriber_services ''sample.mp4'' =
     Inl (PyExc (BaseException_only ''KeyboardInterrupt'') ''stop'') \<and>
   fst (process_video interrupted_transcriber_services ''sample.mp4'' (disk [''sample.mp4''])) =
     Inl (PyExc (BaseException_only ''KeyboardInterrupt'') ''stop'')"
  by code_simp

text \<open>
  C5, as the code has it. For every run in which the transcriber is invoked on a path
  and the speech-recognition call raises there: the summarizer is not invoked during
  the run; when the exception raised derives from \<open>Exception\<close>, \<open>process_video\<close>
  ends with the \<open>Exception\<close> whose message is \<open>Error transcribing video: \<close> followed
  by the message of the failure; when it does not, \<open>process_video\<close> ends with the
  exception raised, unchanged.
\<close>

theorem transcriber_failure_ends_run_before_summarizer:
  assumes inv: "Transcribe q \<in> set (events_of_run w (snd (process_video svc video_path w)))"
    and fail: "transcribe svc q = Inl e"
  shows "(\<forall>t. Summarize t \<notin> set (events_of_run w (snd (process_video svc video_path w)))) \<and>
         (isinstance_Exception e \<longrightarrow>
            fst (process_video svc video_path w) =
              Inl (PyExc Exception (''Error transcribing video: '' @ exc_str e))) \<and>
         (\<not> isinstance_Exception e \<longrightarrow> fst (process_video svc video_path w) = Inl e)"
proof -
  obtain r w' where run: "process_video svc video_path w = (r, w')"
    by (cases "process_video svc video_path w")
  have steps: "r = Inl (reraised ''Error transcribing video: '' e) \<and> (\<forall>t. Summarize t \<notin> set evs)"
    if "steps_run svc q r evs" for evs
    using that fail by (cases rule: steps_run.cases) auto
  have "r = Inl (reraised ''Error transcribing video: '' e) \<and>
      (\<forall>t. Summarize t \<notin> set (events_of_run w w'))"
    using run
  proof (cases rule: process_video_cases)
    case (mp4 evs)
    with inv run steps_run_events(1) [OF mp4(2)] have "q = video_path" by simp
    with mp4(2) steps [of evs] mp4(3) show ?thesis by simp
  next
    case (no_name e0)
    with inv run show ?thesis by simp
  next
    case (leaked e0 name)
    with inv run show ?thesis by simp
  next
    case (converted name evs)
    with inv run steps_run_events(1) [OF converted(3)] have "q = name" by simp
    with converted(3) steps [of evs] converted(4) show ?thesis by simp
  qed
  with run show ?thesis by (simp add: reraised_def)
qed

theorem transcriber_failure_ends_run_before_summarizer_witness:
  "Transcribe ''sample.mp4'' \<in> set (events_of_run (disk [''sample.mp4''])
      (snd (process_video failed_transcriber_services ''sample.mp4'' (disk [''sample.mp4''])))) \<and>
   isinstance_Exception (PyExc (Exception_subclass ''TranscriptError'') ''quota exceeded'') \<and>
   fst (process_video failed_transcriber_services ''sample.mp4'' (disk [''sample.mp4''])) =
     Inl (PyExc Exception (''Error transcribing video: '' @ ''quota exceeded'')) \<and>
   Transcribe ''sample.mp4'' \<in> set (events_of_run (disk [''sample.mp4''])
      (snd (process_video interrupted_transcriber_services ''sample.mp4'' (disk [''sample.mp4''])))) \<and>
   \<not> isinstance_Exception (PyExc (BaseException_only ''KeyboardInterrupt'') ''stop'') \<and>
   Summarize (Some ''hello world'') \<notin> set (events_of_run (disk [''sample.mp4''])
      (snd (process_video interrupted_transcriber_services ''sample.mp4'' (disk [''sample.mp4'']))))"
proof -
  have inv: "Transcribe ''sample.mp4'' \<in> set (events_of_run (disk [''sample.mp4''])
      (snd (process_video failed_transcriber_services ''sample.mp4'' (disk [''sample.mp4'']))))"
    by code_simp
  have fail: "transcribe failed_transcriber_services ''sample.mp4'' =
      Inl (PyExc (Exception_subclass ''TranscriptError'') ''quota exceeded'')"
    by code_simp
  have cls: "isinstance_Exception (PyExc (Exception_subclass ''TranscriptError'') ''quota exceeded'')"
    by code_simp
  note run = transcriber_failure_ends_run_before_summarizer [OF inv fail]
  from run [THEN conjunct2, THEN conjunct1] cls
  have "fst (process_video failed_transcriber_services ''sample.mp4'' (disk [''sample.mp4''])) =
     Inl (PyExc Exception (''Error transcribing video: '' @
       exc_str (PyExc (Exception_subclass ''TranscriptError'') ''quota exceeded'')))"
    by (rule mp)
  then have a: "fst (process_video failed_transcriber_services ''sample.mp4'' (disk [''sample.mp4''])) =
     Inl (PyExc Exception (''Error transcribing video: '' @ ''quota exceeded''))"
    by (simp only: py_exc.sel)
  have inv': "Transcribe ''sample.mp4'' \<in> set (events_of_run (disk [''sample.mp4''])
      (snd (process_video interrupted_transcriber_services ''sample.mp4'' (disk [''sample.mp4'']))))"
    by code_simp
  have fail': "transcribe interrupted_transcriber_services ''sample.mp4'' =
      Inl (PyExc (BaseException_only ''KeyboardInterrupt'') ''stop'')"
    by code_simp
  have cls': "\<not> isinstance_Exception (PyExc (BaseException_only ''KeyboardInterrupt'') ''stop'')"
    by code_simp
  note run' = transcriber_failure_ends_run_before_summarizer [OF inv' fail']
  from run' [THEN conjunct1]
  have b: "Summarize (Some ''hello world'') \<notin> set (events_of_run (disk [''sample.mp4''])
      (snd (process_video interrupted_transcriber_services ''sample.mp4'' (disk [''sample.mp4'']))))"
    by (rule spec)
  from inv cls a inv' cls' b show ?thesis by (intro conjI)
qed




text \<open>
  C9. For every input path that exists on disk: it still exists after
  \<open>convert_to_mp4\<close> and after \<open>process_video\<close>, whatever their outcome; no file
  that existed before the run is missing after it; and every file that the run unlinks
  did not exist before the run and was created during it by \<open>NamedTemporaryFile\<close>.
\<close>

theorem input_file_is_never_deleted:
  assumes "video_path \<in> files w"
  shows "video_path \<in> files (snd (convert_to_mp4 svc video_path w)) \<and>
         video_path \<in> files (snd (process_video svc video_path w)) \<and>
         files w \<subseteq> files (snd (process_video svc video_path w)) \<and>
         (\<forall>f. Unlink f \<in> set (events_of_run w (snd (process_video svc video_path w))) \<longrightarrow>
              f \<notin> files w \<and>
              TempFile f \<in> set (events_of_run w (snd (process_video svc video_path w))))"
proof -
  obtain rc wc where c: "convert_to_mp4 svc video_path w = (rc, wc)"
    by (cases "convert_to_mp4 svc video_path w")
  from c have "files w \<subseteq> files wc"
    by (cases rule: convert_cases) auto
  with c assms have conv: "video_path \<in> files (snd (convert_to_mp4 svc video_path w))"
    by auto
  obtain r w' where run: "process_video svc video_path w = (r, w')"
    by (cases "process_video svc video_path w")
  from run have "files w \<subseteq> files w' \<and>
      (\<forall>f. Unlink f \<in> set (events_of_run w w') \<longrightarrow> f \<notin> files w \<and> TempFile f \<in> set (events_of_run w w'))"
  proof (cases rule: process_video_cases)
    case (mp4 evs)
    with steps_run_events(2) [OF mp4(2)] show ?thesis by simp
  next
    case (no_name e0)
    then show ?thesis by simp
  next
    case (leaked e0 name)
    then show ?thesis by auto
  next
    case (converted name evs)
    with steps_run_events(2) [OF converted(3)] show ?thesis by simp
  qed
  with run conv assms show ?thesis by auto
qed

theorem input_file_is_never_deleted_witness:
  "''sample.avi'' \<in> files (disk [''sample.avi'']) \<and>
   ''sample.avi'' \<in> files (snd (convert_to_mp4 stub_services ''sample.avi'' (disk [''sample.avi'']))) \<and>
   ''sample.avi'' \<in> files (snd (process_video stub_services ''sample.avi'' (disk [''sample.avi''])))"
proof -
  have ex: "''sample.avi'' \<in> files (disk [''sample.avi''])"
    by code_simp
  note run = input_file_is_never_deleted [OF ex, of stub_services]
  from ex run [THEN conjunct1] run [THEN conjunct2, THEN conjunct1] show ?thesis
    by (intro conjI)
qed

text \<open>
  C7. The claim: every internal failure of a step is caught where it occurs and raised
  again as the typed error of that step (\<open>ConversionError\<close>, \<open>TranscriptionError\<close>,
  \<open>SummarizationError\<close>) with a message naming the step. The source has no such
  classes: a failed conversion ends with an exception of the class \<open>Exception\<close>
  itself. And \<open>except Exception\<close> does not catch every failure: a
  \<open>KeyboardInterrupt\<close> in the speech-recognition call leaves \<open>transcribe_video\<close> as
  it was raised.
\<close>

theorem conversion_failure_raises_plain_Exception:
  "fst (convert_to_mp4 broken_clip_services ''sample.avi'' (disk [''sample.avi''])) =
     Inl (PyExc Exception ''Error converting video: file could not be read'') \<and>
   exc_class (PyExc Exception ''Error converting video: file could not be read'')
     \<noteq> Exception_subclass ''ConversionError'' \<and>
   fst (transcribe_video interrupted_transcriber_services ''sample.mp4'' (disk [''sample.mp4''])) =
     Inl (PyExc (BaseException_only ''KeyboardInterrupt'') ''stop'')"
  by code_simp

text \<open>
  C7, as the code has it. Every internal failure of a step whose exception derives from
  \<open>Exception\<close> is caught in the step and raised again as an exception of the class
  \<open>Exception\<close> itself, whose message is the prefix of the step
  (\<open>Error converting video: \<close>, \<open>Error transcribing video: \<close>,
  \<open>Error summarizing text: \<close>) followed by the message of the failure; a failure whose
  exception does not derive from \<open>Exception\<close> leaves the step unchanged. The internal
  failures are: in \<open>convert_to_mp4\<close>, those of \<open>NamedTemporaryFile\<close>, of
  \<open>VideoFileClip\<close>, of \<open>write_videofile\<close> and of \<open>close\<close>; in
  \<open>transcribe_video\<close>, that of the speech-recognition call; in \<open>summarize_text\<close>,
  that of the completion call and the \<open>IndexError\<close> of a response without choices.
  A conversion in which none of the four fails returns the temporary file name.
\<close>

theorem step_failures_are_reraised_as_Exception:
  "(fst (NamedTemporaryFile svc ''.mp4'' w) = Inl x \<longrightarrow>
      fst (convert_to_mp4 svc input_path w) =
        Inl (if isinstance_Exception x
             then PyExc Exception (''Error converting video: '' @ exc_str x) else x)) \<and>
   (fst (NamedTemporaryFile svc ''.mp4'' w) = Inr name \<and> VideoFileClip svc input_path = Some x \<longrightarrow>
      fst (convert_to_mp4 svc input_path w) =
        Inl (if isinstance_Exception x
             then PyExc Exception (''Error converting video: '' @ exc_str x) else x)) \<and>
   (fst (NamedTemporaryFile svc ''.mp4'' w) = Inr name \<and> VideoFileClip svc input_path = None \<and>
    write_videofile svc input_path name = Some x \<longrightarrow>
      fst (convert_to_mp4 svc input_path w) =
        Inl (if isinstance_Exception x
             then PyExc Exception (''Error converting video: '' @ exc_str x) else x)) \<and>
   (fst (NamedTemporaryFile svc ''.mp4'' w) = Inr name \<and> VideoFileClip svc input_path = None \<and>
    write_videofile svc input_path name = None \<and> video_close svc input_path = Some x \<longrightarrow>
      fst (convert_to_mp4 svc input_path w) =
        Inl (if isinstance_Exception x
             then PyExc Exception (''Error converting video: '' @ exc_str x) else x)) \<and>
   (fst (NamedTemporaryFile svc ''.mp4'' w) = Inr name \<and> VideoFileClip svc input_path = None \<and>
    write_videofile svc input_path name = None \<and> video_close svc input_path = None \<longrightarrow>
      fst (convert_to_mp4 svc input_path w) = Inr name) \<and>
   (transcribe svc video_path = Inl x \<longrightarrow>
      fst (transcribe_video svc video_path w) =
        Inl (if isinstance_Exception x
             then PyExc Exception (''Error transcribing video: '' @ exc_str x) else x)) \<and>
   (create_completion svc text max_tokens = Inl x \<longrightarrow>
      fst (summarize_text svc text max_tokens w) =
        Inl (if isinstance_Exception x
             then PyExc Exception (''Error summarizing text: '' @ exc_str x) else x)) \<and>
   (create_completion svc text max_tokens = Inr [] \<longrightarrow>
      fst (summarize_text svc text max_tokens w) =
        Inl (PyExc Exception (''Error summarizing text: '' @ ''list index out of range'')))"
proof -
  let ?n = "NamedTemporaryFile svc ''.mp4'' (log_event (Convert input_path) w)"
  let ?wrap = "\<lambda>x. if isinstance_Exception x
             then PyExc Exception (''Error converting video: '' @ exc_str x) else x"
  have n: "fst ?n = fst (NamedTemporaryFile svc ''.mp4'' w)"
    by (rule NamedTemporaryFile_logged)
  have c1: "fst (convert_to_mp4 svc input_path w) = Inl (?wrap x)"
    if "fst (NamedTemporaryFile svc ''.mp4'' w) = Inl x"
    using that n by (cases ?n) (simp add: convert_to_mp4_def except_Exception_def reraised_def)
  have c2: "fst (convert_to_mp4 svc input_path w) = Inl (?wrap x)"
    if "fst (NamedTemporaryFile svc ''.mp4'' w) = Inr name" "VideoFileClip svc input_path = Some x"
    using that n by (cases ?n) (simp add: convert_to_mp4_def except_Exception_def reraised_def)
  have c3: "fst (convert_to_mp4 svc input_path w) = Inl (?wrap x)"
    if "fst (NamedTemporaryFile svc ''.mp4'' w) = Inr name" "VideoFileClip svc input_path = None"
      "write_videofile svc input_path name = Some x"
    using that n by (cases ?n) (simp add: convert_to_mp4_def except_Exception_def reraised_def)
  have c4: "fst (convert_to_mp4 svc input_path w) = Inl (?wrap x)"
    if "fst (NamedTemporaryFile svc ''.mp4'' w) = Inr name" "VideoFileClip svc input_path = None"
      "write_videofile svc input_path name = None" "video_close svc input_path = Some x"
    using that n by (cases ?n) (simp add: convert_to_mp4_def except_Exception_def reraised_def)
  have c5: "fst (convert_to_mp4 svc input_path w) = Inr name"
    if "fst (NamedTemporaryFile svc ''.mp4'' w) = Inr name" "VideoFileClip svc input_path = None"
      "write_videofile svc input_path name = None" "video_close svc input_path = None"
    using that n by (cases ?n) (simp add: convert_to_mp4_def)
  have t: "fst (transcribe_video svc video_path w) =
        Inl (if isinstance_Exception x
             then PyExc Exception (''Error transcribing video: '' @ exc_str x) else x)"
    if "transcribe svc video_path = Inl x"
    using that by (simp add: transcribe_video_def except_Exception_def reraised_def)
  have s1: "fst (summarize_text svc text max_tokens w) =
        Inl (if isinstance_Exception x
             then PyExc Exception (''Error summarizing text: '' @ exc_str x) else x)"
    if "create_completion svc text max_tokens = Inl x"
    using that by (simp add: summarize_text_def except_Exception_def reraised_def)
  have s2: "fst (summarize_text svc text max_tokens w) =
        Inl (PyExc Exception (''Error summarizing text: '' @ ''list index out of range''))"
    if "create_completion svc text max_tokens = Inr []"
    using that
    by (simp add: summarize_text_def except_Exception_def reraised_def isinstance_Exception_def)
  from c1 c2 c3 c4 c5 t s1 s2 show ?thesis by blast
qed

theorem step_failures_are_reraised_as_Exception_witness:
  "fst (convert_to_mp4 no_tempname_services ''sample.avi'' (disk [''sample.avi''])) =
     Inl (PyExc Exception ''Error converting video: No usable temporary file name found'') \<and>
   fst (convert_to_mp4 broken_clip_services ''sample.avi'' (disk [''sample.avi''])) =
     Inl (PyExc Exception ''Error converting video: file could not be read'') \<and>
   fst (convert_to_mp4 broken_writer_services ''sample.avi'' (disk [''sample.avi''])) =
     Inl (PyExc Exception ''Error converting video: broken pipe'') \<and>
   fst (convert_to_mp4 broken_close_services ''sample.avi'' (disk [''sample.avi''])) =
     Inl (PyExc Exception ''Error converting video: clip already closed'') \<and>
   fst (convert_to_mp4 stub_services ''sample.avi'' (disk [''sample.avi''])) =
     Inr ''/tmp/tmpabc123.mp4'' \<and>
   fst (transcribe_video failed_transcriber_services ''sample.mp4'' (disk [''sample.avi''])) =
     Inl (PyExc Exception ''Error transcribing video: quota exceeded'') \<and>
   fst (transcribe_video interrupted_transcriber_services ''sample.mp4'' (disk [''sample.avi''])) =
     Inl (PyExc (BaseException_only ''KeyboardInterrupt'') ''stop'') \<and>
   fst (summarize_text failed_summarizer_services (Some ''hello world'') 150 (disk [''sample.avi''])) =
     Inl (PyExc Exception ''Error summarizing text: rate limit'') \<and>
   fst (summarize_text no_choice_services (Some ''hello world'') 150 (disk [''sample.avi''])) =
     Inl (PyExc Exception ''Error summarizing text: list index out of range'')"
proof -
  have a0: "fst (NamedTemporaryFile no_tempname_services ''.mp4'' (disk [''sample.avi''])) = Inl (PyExc (Exception_subclass ''FileExistsError'') ''No usable temporary file name found'')"
    by code_simp
  note a = step_failures_are_reraised_as_Exception
    [where svc = "no_tempname_services" and w = "disk [''sample.avi'']" and x = "PyExc (Exception_subclass ''FileExistsError'') ''No usable temporary file name found''" and input_path = "''sample.avi''", THEN conjunct1]
  have av: "(if isinstance_Exception (PyExc (Exception_subclass ''FileExistsError'') ''No usable temporary file name found'')
       then PyExc Exception (''Error converting video: '' @ exc_str (PyExc (Exception_subclass ''FileExistsError'') ''No usable temporary file name found'')) else PyExc (Exception_subclass ''FileExistsError'') ''No usable temporary file name found'') =
     PyExc Exception ''Error converting video: No usable temporary file name found''"
    by code_simp
  from a a0 have "fst (convert_to_mp4 no_tempname_services ''sample.avi'' (disk [''sample.avi''])) =
     Inl (if isinstance_Exception (PyExc (Exception_subclass ''FileExistsError'') ''No usable temporary file name found'')
       then PyExc Exception (''Error converting video: '' @ exc_str (PyExc (Exception_subclass ''FileExistsError'') ''No usable temporary file name found'')) else PyExc (Exception_subclass ''FileExistsError'') ''No usable temporary file name found'')"
    by (rule mp)
  then have ar: "fst (convert_to_mp4 no_tempname_services ''sample.avi'' (disk [''sample.avi''])) =
     Inl (PyExc Exception ''Error converting video: No usable temporary file name found'')"
    by (simp only: av)
  have b0: "fst (NamedTemporaryFile broken_clip_services ''.mp4'' (disk [''sample.avi''])) = Inr ''/tmp/tmpabc123.mp4''"
    by code_simp
  have b1: "VideoFileClip broken_clip_services ''sample.avi'' = Some (PyExc (Exception_subclass ''OSError'') ''file could not be read'')"
    by code_simp
  note b = step_failures_are_reraised_as_Exception
    [where svc = "broken_clip_services" and w = "disk [''sample.avi'']" and x = "PyExc (Exception_subclass ''OSError'') ''file could not be read''" and input_path = "''sample.avi''" and name = "''/tmp/tmpabc123.mp4''", THEN conjunct2, THEN conjunct1]
  have bv: "(if isinstance_Exception (PyExc (Exception_subclass ''OSError'') ''file could not be read'')
       then PyExc Exception (''Error converting video: '' @ exc_str (PyExc (Exception_subclass ''OSError'') ''file could not be read'')) else PyExc (Exception_subclass ''OSError'') ''file could not be read'') =
     PyExc Exception ''Error converting video: file could not be read''"
    by code_simp
  from b conjI [OF b0 b1] have "fst (convert_to_mp4 broken_clip_services ''sample.avi'' (disk [''sample.avi''])) =
     Inl (if isinstance_Exception (PyExc (Exception_subclass ''OSError'') ''file could not be read'')
       then PyExc Exception (''Error converting video: '' @ exc_str (PyExc (Exception_subclass ''OSError'') ''file could not be read'')) else PyExc (Exception_subclass ''OSError'') ''file could not be read'')"
    by (rule mp)
  then have br: "fst (convert_to_mp4 broken_clip_services ''sample.avi'' (disk [''sample.avi''])) =
     Inl (PyExc Exception ''Error converting video: file could not be read'')"
    by (simp only: bv)
  have c0: "fst (NamedTemporaryFile broken_writer_services ''.mp4'' (disk [''sample.avi''])) = Inr ''/tmp/tmpabc123.mp4''"
    by code_simp
  have c1: "VideoFileClip broken_writer_services ''sample.avi'' = None"
    by code_simp
  have c2: "write_videofile broken_writer_services ''sample.avi'' ''/tmp/tmpabc123.mp4'' = Some (PyExc (Exception_subclass ''OSError'') ''broken pipe'')"
    by code_simp
  note c = step_failures_are_reraised_as_Exception
    [where svc = "broken_writer_services" and w = "disk [''sample.avi'']" and x = "PyExc (Exception_subclass ''OSError'') ''broken pipe''" and input_path = "''sample.avi''" and name = "''/tmp/tmpabc123.mp4''", THEN conjunct2, THEN conjunct2, THEN conjunct1]
  have cv: "(if isinstance_Exception (PyExc (Exception_subclass ''OSError'') ''broken pipe'')
       then PyExc Exception (''Error converting video: '' @ exc_str (PyExc (Exception_subclass ''OSError'') ''broken pipe'')) else PyExc (Exception_subclass ''OSError'') ''broken pipe'') =
     PyExc Exception ''Error converting video: broken pipe''"
    by code_simp
  from c conjI [OF c0 conjI [OF c1 c2]] have "fst (convert_to_mp4 broken_writer_services ''sample.avi'' (disk [''sample.avi''])) =
     Inl (if isinstance_Exception (PyExc (Exception_subclass ''OSError'') ''broken pipe'')
       then PyExc Exception (''Error converting video: '' @ exc_str (PyExc (Exception_subclass ''OSError'') ''broken pipe'')) else PyExc (Exception_subclass ''OSError'') ''broken pipe'')"
    by (rule mp)
  then have cr: "fst (convert_to_mp4 broken_writer_services ''sample.avi'' (disk [''sample.avi''])) =
     Inl (PyExc Exception ''Error converting video: broken pipe'')"
    by (simp only: cv)
  have d0: "fst (NamedTemporaryFile broken_close_services ''.mp4'' (disk [''sample.avi''])) = Inr ''/tmp/tmpabc123.mp4''"
    by code_simp
  have d1: "VideoFileClip broken_close_services ''sample.avi'' = None"
    by code_simp
  have d2: "write_videofile broken_close_services ''sample.avi'' ''/tmp/tmpabc123.mp4'' = None"
    by code_simp
  have d3: "video_close broken_close_services ''sample.avi'' = Some (PyExc (Exception_subclass ''OSError'') ''clip already closed'')"
    by code_simp
  note d = step_failures_are_reraised_as_Exception
    [where svc = "broken_close_services" and w = "disk [''sample.avi'']" and x = "PyExc (Exception_subclass ''OSError'') ''clip already closed''" and input_path = "''sample.avi''" and name = "''/tmp/tmpabc123.mp4''", THEN conjunct2, THEN conjunct2, THEN conjunct2, THEN conjunct1]
  have dv: "(if isinstance_Exception (PyExc (Exception_subclass ''OSError'') ''clip already closed'')
       then PyExc Exception (''Error converting video: '' @ exc_str (PyExc (Exception_subclass ''OSError'') ''clip already closed'')) else PyExc (Exception_subclass ''OSError'') ''clip already closed'') =
     PyExc Exception ''Error converting video: clip already closed''"
    by code_simp
  from d conjI [OF d0 conjI [OF d1 conjI [OF d2 d3]]] have "fst (convert_to_mp4 broken_close_services ''sample.avi'' (disk [''sample.avi''])) =
     Inl (if isinstance_Exception (PyExc (Exception_subclass ''OSError'') ''clip already closed'')
       then PyExc Exception (''Error converting video: '' @ exc_str (PyExc (Exception_subclass ''OSError'') ''clip already closed'')) else PyExc (Exception_subclass ''OSError'') ''clip already closed'')"
    by (rule mp)
  then have dr: "fst (convert_to_mp4 broken_close_services ''sample.avi'' (disk [''sample.avi''])) =
     Inl (PyExc Exception ''Error converting video: clip already closed'')"
    by (simp only: dv)
  have e0: "fst (NamedTemporaryFile stub_services ''.mp4'' (disk [''sample.avi''])) = Inr ''/tmp/tmpabc123.mp4''"
    by code_simp
  have e1: "VideoFileClip stub_services ''sample.avi'' = None"
    by code_simp
  have e2: "write_videofile stub_services ''sample.avi'' ''/tmp/tmpabc123.mp4'' = None"
    by code_simp
  have e3: "video_close stub_services ''sample.avi'' = None"
    by code_simp
  note e = step_failures_are_reraised_as_Exception
    [where svc = "stub_services" and w = "disk [''sample.avi'']" and input_path = "''sample.avi''" and name = "''/tmp/tmpabc123.mp4''", THEN conjunct2, THEN conjunct2, THEN conjunct2, THEN conjunct2, THEN conjunct1]
  from e conjI [OF e0 conjI [OF e1 conjI [OF e2 e3]]] have er: "fst (convert_to_mp4 stub_services ''sample.avi'' (disk [''sample.avi''])) =
     Inr ''/tmp/tmpabc123.mp4''"
    by (rule mp)
  have f0: "transcribe failed_transcriber_services ''sample.mp4'' = Inl (PyExc (Exception_subclass ''TranscriptError'') ''quota exceeded'')"
    by code_simp
  note f = step_failures_are_reraised_as_Exception
    [where svc = "failed_transcriber_services" and w = "disk [''sample.avi'']" and x = "PyExc (Exception_subclass ''TranscriptError'') ''quota exceeded''" and video_path = "''sample.mp4''", THEN conjunct2, THEN conjunct2, THEN conjunct2, THEN conjunct2, THEN conjunct2, THEN conjunct1]
  have fv: "(if isinstance_Exception (PyExc (Exception_subclass ''TranscriptError'') ''quota exceeded'')
       then PyExc Exception (''Error transcribing video: '' @ exc_str (PyExc (Exception_subclass ''TranscriptError'') ''quota exceeded'')) else PyExc (Exception_subclass ''TranscriptError'') ''quota exceeded'') =
     PyExc Exception ''Error transcribing video: quota exceeded''"
    by code_simp
  from f f0 have "fst (transcribe_video failed_transcriber_services ''sample.mp4'' (disk [''sample.avi''])) =
     Inl (if isinstance_Exception (PyExc (Exception_subclass ''TranscriptError'') ''quota exceeded'')
       then PyExc Exception (''Error transcribing video: '' @ exc_str (PyExc (Exception_subclass ''TranscriptError'') ''quota exceeded'')) else PyExc (Exception_subclass ''TranscriptError'') ''quota exceeded'')"
    by (rule mp)
  then have fr: "fst (transcribe_video failed_transcriber_services ''sample.mp4'' (disk [''sample.avi''])) =
     Inl (PyExc Exception ''Error transcribing video: quota exceeded'')"
    by (simp only: fv)
  have g0: "transcribe interrupted_transcriber_services ''sample.mp4'' = Inl (PyExc (BaseException_only ''KeyboardInterrupt'') ''stop'')"
    by code_simp
  note g = step_failures_are_reraised_as_Exception
    [where svc = "interrupted_transcriber_services" and w = "disk [''sample.avi'']" and x = "PyExc (BaseException_only ''KeyboardInterrupt'') ''stop''" and video_path = "''sample.mp4''", THEN conjunct2, THEN conjunct2, THEN conjunct2, THEN conjunct2, THEN conjunct2, THEN conjunct1]
  have gv: "(if isinstance_Exception (PyExc (BaseException_only ''KeyboardInterrupt'') ''stop'')
       then PyExc Exception (''Error transcribing video: '' @ exc_str (PyExc (BaseException_only ''KeyboardInterrupt'') ''stop'')) else PyExc (BaseException_only ''KeyboardInterrupt'') ''stop'') =
     PyExc (BaseException_only ''KeyboardInterrupt'') ''stop''"
    by code_simp
  from g g0 have "fst (transcribe_video interrupted_transcriber_services ''sample.mp4'' (disk [''sample.avi''])) =
     Inl (if isinstance_Exception (PyExc (BaseException_only ''KeyboardInterrupt'') ''stop'')
       then PyExc Exception (''Error transcribing video: '' @ exc_str (PyExc (BaseException_only ''KeyboardInterrupt'') ''stop'')) else PyExc (BaseException_only ''KeyboardInterrupt'') ''stop'')"
    by (rule mp)
  then have gr: "fst (transcribe_video interrupted_transcriber_services ''sample.mp4'' (disk [''sample.avi''])) =
     Inl (PyExc (BaseException_only ''KeyboardInterrupt'') ''stop'')"
    by (simp only: gv)
  have h0: "create_completion failed_summarizer_services (Some ''hello world'') 150 = Inl (PyExc (Exception_subclass ''APIError'') ''rate limit'')"
    by code_simp
  note h = step_failures_are_reraised_as_Exception
    [where svc = "failed_summarizer_services" and w = "disk [''sample.avi'']" and x = "PyExc (Exception_subclass ''APIError'') ''rate limit''" and ?text = "Some ''hello world''" and max_tokens = "150", THEN conjunct2, THEN conjunct2, THEN conjunct2, THEN conjunct2, THEN conjunct2, THEN conjunct2, THEN conjunct1]
  have hv: "(if isinstance_Exception (PyExc (Exception_subclass ''APIError'') ''rate limit'')
       then PyExc Exception (''Error summarizing text: '' @ exc_str (PyExc (Exception_subclass ''APIError'') ''rate limit'')) else PyExc (Exception_subclass ''APIError'') ''rate limit'') =
     PyExc Exception ''Error summarizing text: rate limit''"
    by code_simp
  from h h0 have "fst (summarize_text failed_summarizer_services (Some ''hello world'') 150 (disk [''sample.avi''])) =
     Inl (if isinstance_Exception (PyExc (Exception_subclass ''APIError'') ''rate limit'')
       then PyExc Exception (''Error summarizing text: '' @ exc_str (PyExc (Exception_subclass ''APIError'') ''rate limit'')) else PyExc (Exception_subclass ''APIError'') ''rate limit'')"
    by (rule mp)
  then have hr: "fst (summarize_text failed_summarizer_services (Some ''hello world'') 150 (disk [''sample.avi''])) =
     Inl (PyExc Exception ''Error summarizing text: rate limit'')"
    by (simp only: hv)
  have i0: "create_completion no_choice_services (Some ''hello world'') 150 = Inr []"
    by code_simp
  note i = step_failures_are_reraised_as_Exception
    [where svc = "no_choice_services" and w = "disk [''sample.avi'']" and ?text = "Some ''hello world''" and max_tokens = "150", THEN conjunct2, THEN conjunct2, THEN conjunct2, THEN conjunct2, THEN conjunct2, THEN conjunct2, THEN conjunct2]
  from i i0 have "fst (summarize_text no_choice_services (Some ''hello world'') 150 (disk [''sample.avi''])) =
     Inl (PyExc Exception (''Error summarizing text: '' @ ''list index out of range''))"
    by (rule mp)
  then have ir: "fst (summarize_text no_choice_services (Some ''hello world'') 150 (disk [''sample.avi''])) =
     Inl (PyExc Exception ''Error summarizing text: list index out of range'')"
    by simp
  from ar br cr dr er fr gr hr ir show ?thesis by (intro conjI)
qed

text \<open>
  C8. The claim: \<open>transcribe_video\<close> fails with a transcription error on every failure
  the speech-recognition service reports, an empty result included, and never returns
  an empty or absent transcript as its value. The source returns \<open>transcript.text\<close>
  unchecked: an empty text is the value returned, and so is an absent one; and an
  exception that does not derive from \<open>Exception\<close> leaves \<open>transcribe_video\<close> as it
  was raised.
\<close>

theorem transcribe_video_returns_empty_and_absent_text:
  "fst (transcribe_video silent_services ''sample.mp4'' (disk [''sample.mp4''])) = Inr (Some '''') \<and>
   fst (transcribe_video textless_services ''sample.mp4'' (disk [''sample.mp4''])) = Inr None \<and>
   fst (transcribe_video interrupted_transcriber_services ''sample.mp4'' (disk [''sample.mp4''])) =
     Inl (PyExc (BaseException_only ''KeyboardInterrupt'') ''stop'')"
  by code_simp

text \<open>
  C8, as the code has it. \<open>transcribe_video\<close> fails exactly when the
  speech-recognition call raises: with the \<open>Exception\<close> whose message is
  \<open>Error transcribing video: \<close> followed by the message of the failure when the
  exception raised derives from \<open>Exception\<close>, and with the exception raised itself
  when it does not. When the call returns, the text of the transcript is returned as
  it is, empty or absent or not.
\<close>

theorem transcribe_video_outcome:
  "fst (transcribe_video svc video_path w) =
     (case transcribe svc video_path of
        Inl e \<Rightarrow>
          Inl (if isinstance_Exception e
               then PyExc Exception (''Error transcribing video: '' @ exc_str e) else e)
      | Inr text \<Rightarrow> Inr text)"
  by (simp add: transcribe_video_def except_Exception_def reraised_def split: sum.splits)

theorem transcribe_video_outcome_witness:
  "fst (transcribe_video failed_transcriber_services ''sample.mp4'' (disk [''sample.mp4''])) =
     Inl (PyExc Exception ''Error transcribing video: quota exceeded'') \<and>
   fst (transcribe_video interrupted_transcriber_services ''sample.mp4'' (disk [''sample.mp4''])) =
     Inl (PyExc (BaseException_only ''KeyboardInterrupt'') ''stop'') \<and>
   fst (transcribe_video silent_services ''sample.mp4'' (disk [''sample.mp4''])) = Inr (Some '''') \<and>
   fst (transcribe_video textless_services ''sample.mp4'' (disk [''sample.mp4''])) = Inr None \<and>
   fst (transcribe_video stub_services ''sample.mp4'' (disk [''sample.mp4''])) = Inr (Some ''hello world'')"
proof -
  have 1: "(case transcribe failed_transcriber_services ''sample.mp4'' of
        Inl e \<Rightarrow> Inl (if isinstance_Exception e
               then PyExc Exception (''Error transcribing video: '' @ exc_str e) else e)
      | Inr text \<Rightarrow> Inr text) = Inl (PyExc Exception ''Error transcribing video: quota exceeded'')"
    by code_simp
  have 2: "(case transcribe interrupted_transcriber_services ''sample.mp4'' of
        Inl e \<Rightarrow> Inl (if isinstance_Exception e
               then PyExc Exception (''Error transcribing video: '' @ exc_str e) else e)
      | Inr text \<Rightarrow> Inr text) = Inl (PyExc (BaseException_only ''KeyboardInterrupt'') ''stop'')"
    by code_simp
  have 3: "(case transcribe silent_services ''sample.mp4'' of
        Inl e \<Rightarrow> Inl (if isinstance_Exception e
               then PyExc Exception (''Error transcribing video: '' @ exc_str e) else e)
      | Inr text \<Rightarrow> Inr text) = Inr (Some '''')"
    by code_simp
  have 4: "(case transcribe textless_services ''sample.mp4'' of
        Inl e \<Rightarrow> Inl (if isinstance_Exception e
               then PyExc Exception (''Error transcribing video: '' @ exc_str e) else e)
      | Inr text \<Rightarrow> Inr text) = Inr None"
    by code_simp
  have 5: "(case transcribe stub_services ''sample.mp4'' of
        Inl e \<Rightarrow> Inl (if isinstance_Exception e
               then PyExc Exception (''Error transcribing video: '' @ exc_str e) else e)
      | Inr text \<Rightarrow> Inr text) = Inr (Some ''hello world'')"
    by code_simp
  note t = transcribe_video_outcome [of _ "''sample.mp4''" "disk [''sample.mp4'']"]
  from trans [OF t 1] trans [OF t 2] trans [OF t 3] trans [OF t 4] trans [OF t 5]
  show ?thesis by (intro conjI)
qed

text \<open>
  C1. The claim: after every run of \<open>process_video\<close>, failed or not, the temporary
  files on disk are those of before the run. In the run below the media library cannot
  open \<open>sample.avi\<close>: \<open>convert_to_mp4\<close> has already made its temporary file, the
  exception leaves \<open>process_video\<close> before the file is appended to \<open>temp_files\<close>,
  and the file is on disk after the run.
\<close>

theorem failed_conversion_leaves_temporary_file:
  "fst (process_video broken_clip_services ''sample.avi'' (disk [''sample.avi''])) =
     Inl (PyExc Exception ''Error converting video: file could not be read'') \<and>
   files (disk [''sample.avi'']) = {''sample.avi''} \<and>
   files (snd (process_video broken_clip_services ''sample.avi'' (disk [''sample.avi'']))) =
     {''sample.avi'', ''/tmp/tmpabc123.mp4''} \<and>
   ''/tmp/tmpabc123.mp4'' \<notin> files (disk [''sample.avi''])"
  by code_simp

text \<open>
  C4. The claim: for every input path whose extension is not \<open>.mp4\<close>, exactly one
  normalized temporary file is created during the run and it is deleted when
  \<open>process_video\<close> returns. In the run below on \<open>movie.mov\<close> the encoding fails: one
  temporary file is created, no \<open>os.unlink\<close> happens, and the file is on disk after
  the run.
\<close>

theorem failed_encoding_creates_temporary_file_and_keeps_it:
  "lower (snd (splitext ''movie.mov'')) \<noteq> ''.mp4'' \<and>
   events_of_run (disk [''movie.mov''])
     (snd (process_video broken_writer_services ''movie.mov'' (disk [''movie.mov'']))) =
     [StInfo ''Converting video to MP4 format...'', Convert ''movie.mov'',
      TempFile ''/tmp/tmpabc123.mp4'',
      Raised (PyExc Exception ''Error converting video: broken pipe'')] \<and>
   ''/tmp/tmpabc123.mp4'' \<in> files (snd (process_video broken_writer_services ''movie.mov'' (disk [''movie.mov''])))"
  by code_simp

end
